theory Spec2Isabelle
  imports Complex_Main "HOL-Library.Sublist"
begin

section \<open>Python values and errors\<close>

text \<open>
  The scanner is one Python module, \<^verbatim>\<open>mastodon-profile-scanner.py\<close>. Every exception
  the modelled lines can raise is a constructor of \<open>error\<close>; a function that can
  raise returns \<open>error + 'a\<close> with \<open>Inl\<close> for the exception.
  \<open>TransportError\<close> stands for any exception of the Mastodon client other than
  \<^verbatim>\<open>MastodonRatelimitError\<close> (network failure, API error).
\<close>

datatype error =
  ZeroDivisionError | TransportError | UnboundLocalError | ValueError | AttributeError

text \<open>Python's \<^verbatim>\<open>needle in hay\<close> on strings: \<open>needle\<close> occurs somewhere in \<open>hay\<close>.\<close>

fun py_in :: "string \<Rightarrow> string \<Rightarrow> bool" where
  "py_in needle [] = (needle = [])"
| "py_in needle (c # cs) = (prefix needle (c # cs) \<or> py_in needle cs)"

text \<open>Python's \<^verbatim>\<open>s.split(d)\<close> for a one-character separator; the result is never empty.\<close>

fun split_on :: "char \<Rightarrow> string \<Rightarrow> string list" where
  "split_on d [] = [[]]"
| "split_on d (c # cs) =
     (if c = d then [] # split_on d cs
      else (case split_on d cs of [] \<Rightarrow> [[c]] | p # ps \<Rightarrow> (c # p) # ps))"

text \<open>Python's \<^verbatim>\<open>xs[-2]\<close>; \<open>None\<close> is the IndexError of a list shorter than two.\<close>

definition second_to_last :: "'a list \<Rightarrow> 'a option" where
  "second_to_last xs = (if length xs < 2 then None else Some (xs ! (length xs - 2)))"

text \<open>Python's \<^verbatim>\<open>s.strip(chars)\<close>.\<close>

definition strip :: "string \<Rightarrow> string \<Rightarrow> string" where
  "strip chars s =
     rev (dropWhile (\<lambda>c. c \<in> set chars) (rev (dropWhile (\<lambda>c. c \<in> set chars) s)))"

text \<open>Python's \<^verbatim>\<open>str(n)\<close> for an integer, as an f-string renders it.\<close>

fun str_nat :: "nat \<Rightarrow> string" where
  "str_nat n =
     (if n < 10 then [''0123456789'' ! n]
      else str_nat (n div 10) @ [''0123456789'' ! (n mod 10)])"

declare str_nat.simps [simp del]

definition str_int :: "int \<Rightarrow> string" where
  "str_int i = (if i < 0 then CHR ''-'' # str_nat (nat (- i)) else str_nat (nat i))"

section \<open>RateLimitMonitor\<close>

text \<open>
  \<^verbatim>\<open>monitor_rate_limit\<close> (lines 12-24) reads \<^verbatim>\<open>ratelimit_remaining\<close>,
  \<^verbatim>\<open>ratelimit_limit\<close> and \<^verbatim>\<open>ratelimit_reset\<close> from the client and the clock
  from \<^verbatim>\<open>time.time()\<close>. The quota record holds the three attributes together with the
  clock reading. The advisory is the f-string of line 22; the model keeps the three numbers
  it renders. The quotient \<^verbatim>\<open>remaining / limit\<close> is Python's true division, which
  raises on a zero divisor; the comparison with \<^verbatim>\<open>0.1\<close> is taken over the rationals,
  so the rounding of the float quotient next to \<^verbatim>\<open>0.1\<close> and the OverflowError of a
  quotient beyond the float range are not part of the model.
\<close>

record quota =
  ratelimit_remaining :: "int option"
  ratelimit_limit :: "int option"
  ratelimit_reset :: rat
  clock :: rat

datatype advisory = Advisory int int rat

definition monitor_rate_limit :: "quota \<Rightarrow> error + advisory option" where
  "monitor_rate_limit q =
     (case ratelimit_remaining q of
        None \<Rightarrow> Inr None
      | Some remaining \<Rightarrow>
          (case ratelimit_limit q of
             None \<Rightarrow> Inr None
           | Some limit \<Rightarrow>
               if limit = 0 then Inl ZeroDivisionError
               else
                 let ratio = rat_of_int remaining / rat_of_int limit in
                 if ratio < 1 / 10 then
                   let reset_time = ratelimit_reset q - clock q in
                   if reset_time > 0 then Inr (Some (Advisory remaining limit reset_time))
                   else Inr None
                 else Inr None))"

section \<open>Posts: data model\<close>

text \<open>
  Fields are taken at the types the code uses them with: ids are integers, bodies and
  URLs are strings, timestamps are the strings \<^verbatim>\<open>str(created_at)\<close> yields. A missing
  attribute and a \<^verbatim>\<open>None\<close> value are both \<open>None\<close>, except for the metadata of a
  medium: there the outer \<open>None\<close> is a missing \<^verbatim>\<open>meta\<close> and \<open>Some None\<close> a
  \<^verbatim>\<open>meta\<close> that is \<^verbatim>\<open>None\<close>. Fields that are copied from the
  raw post to the output without being read (counters, language, flags, poll) are left
  out; the record types are extensible and carry them in their \<open>more\<close> part.
\<close>

record account_ref =
  a_username :: string
  a_display_name :: string
  a_url :: string

record media =
  m_id :: int
  m_type :: string
  m_url :: string
  m_preview_url :: string
  m_description :: "string option"
  m_meta :: "string option option"
  m_local_path :: "string option"

record media_object =
  mo_id :: int
  mo_type :: string
  mo_url :: string
  mo_preview_url :: string
  mo_description :: "string option"
  mo_meta :: "string option option"

datatype raw_media = Dict_media media | Object_media media_object

record raw_status =
  s_id :: int
  s_content :: string
  s_account :: account_ref
  s_created_at :: string
  s_media_attachments :: "raw_media list"

record raw_post =
  p_id :: int
  p_created_at :: string
  p_reblog :: "raw_status option"
  p_content :: string
  p_url :: string
  p_visibility :: string
  p_media_attachments :: "raw_media list"

datatype post_type = Original | Reblog | Favorite

record content =
  c_text :: string
  c_hashtags :: "string list"
  c_mentions :: "string list"
  c_urls :: "string list"

record reblogged_from =
  rf_id :: int
  rf_account :: account_ref
  rf_created_at :: string
  rf_media_attachments :: "media list"

record favorited_status =
  fs_id :: int
  fs_account :: account_ref
  fs_created_at :: string

record post_dict =
  pd_id :: int
  pd_created_at :: string
  pd_type :: post_type
  pd_url :: string
  pd_media_attachments :: "media list"
  pd_visibility :: string
  pd_content :: content
  pd_reblogged_from :: "reblogged_from option"
  pd_favorited_status :: "favorited_status option"

text \<open>
  The collaborators the enrichment calls: \<^verbatim>\<open>clean_content\<close> (lines 244-287, an HTML
  parse by a library; a pure function here), \<^verbatim>\<open>mastodon.status\<close> (\<open>None\<close> when the
  call raises anything), \<^verbatim>\<open>os.path.splitext(url)[1]\<close> and \<^verbatim>\<open>download_media\<close>
  (lines 26-39, which returns \<^verbatim>\<open>False\<close> on any failure).
\<close>

record services =
  clean_content :: "string \<Rightarrow> content"
  status_lookup :: "string \<Rightarrow> raw_status option"
  splitext_ext :: "string \<Rightarrow> string"
  download_media :: "string \<Rightarrow> string \<Rightarrow> bool"

section \<open>PostEnricher\<close>

text \<open>\<^verbatim>\<open>process_media_attachments\<close>, lines 64-89.\<close>

definition process_media :: "raw_media \<Rightarrow> media" where
  "process_media rm =
     (case rm of
        Dict_media m \<Rightarrow> m
      | Object_media obj \<Rightarrow>
          \<lparr> m_id = mo_id obj, m_type = mo_type obj, m_url = mo_url obj,
            m_preview_url = mo_preview_url obj, m_description = mo_description obj,
            m_meta =
              (if mo_type obj = ''image'' \<or> mo_type obj = ''video''
               then Some (case mo_meta obj of Some meta \<Rightarrow> meta | None \<Rightarrow> Some ''{}'')
               else None),
            m_local_path = None \<rparr>)"

definition process_media_attachments :: "raw_media list \<Rightarrow> media list" where
  "process_media_attachments ms = map process_media ms"

text \<open>The conditional expression of line 330.\<close>

definition classify :: "raw_post \<Rightarrow> post_type" where
  "classify post =
     (if p_reblog post \<noteq> None then Reblog
      else if p_content post = [] \<and> py_in ''/activity'' (p_url post) then Favorite
      else Original)"

text \<open>
  The \<^verbatim>\<open>try\<close> body of lines 433-446: the status id is the second-to-last piece of the
  URL split at \<^verbatim>\<open>/\<close>, the original is fetched and its content cleaned. \<open>None\<close> is
  the bare \<^verbatim>\<open>except\<close> of line 447.
\<close>

definition resolve_favorite :: "services \<Rightarrow> raw_post \<Rightarrow> (content \<times> favorited_status) option" where
  "resolve_favorite sv post =
     (case second_to_last (split_on CHR ''/'' (p_url post)) of
        None \<Rightarrow> None
      | Some status_id \<Rightarrow>
          (case status_lookup sv status_id of
             None \<Rightarrow> None
           | Some original_status \<Rightarrow>
               Some (clean_content sv (s_content original_status),
                     \<lparr> fs_id = s_id original_status,
                       fs_account = s_account original_status,
                       fs_created_at = s_created_at original_status \<rparr>)))"

definition unavailable_content :: content where
  "unavailable_content =
     \<lparr> c_text = ''Action non disponible'', c_hashtags = [], c_mentions = [], c_urls = [] \<rparr>"

text \<open>
  Lines 418-450: the content and the two cross-reference keys, by type. The keys
  \<^verbatim>\<open>reblogged_from\<close> and \<^verbatim>\<open>favorited_status\<close> are set in one branch each and
  absent otherwise.
\<close>

definition cross_reference ::
  "services \<Rightarrow> raw_post \<Rightarrow> content \<times> reblogged_from option \<times> favorited_status option" where
  "cross_reference sv post =
     (case (classify post, p_reblog post) of
        (Reblog, Some reblog) \<Rightarrow>
          (clean_content sv (s_content reblog),
           Some \<lparr> rf_id = s_id reblog, rf_account = s_account reblog,
                  rf_created_at = s_created_at reblog,
                  rf_media_attachments =
                    process_media_attachments (s_media_attachments reblog) \<rparr>,
           None)
      | (Favorite, _) \<Rightarrow>
          (case resolve_favorite sv post of
             Some (fav_content, fav) \<Rightarrow> (fav_content, None, Some fav)
           | None \<Rightarrow> (unavailable_content, None, None))
      | _ \<Rightarrow> (clean_content sv (p_content post), None, None))"

text \<open>
  The body of the \<^verbatim>\<open>for post in new_posts\<close> loop, lines 327-452. Lines 345-416 fill
  the actor lists \<^verbatim>\<open>rebloggers\<close> and \<^verbatim>\<open>favouriters\<close>; each of their calls sits
  under a bare \<^verbatim>\<open>except\<close>, so they raise nothing and touch no other key.
\<close>

definition process_post :: "services \<Rightarrow> raw_post \<Rightarrow> post_dict" where
  "process_post sv post =
     (case cross_reference sv post of
        (body, reblogged, favorited) \<Rightarrow>
          \<lparr> pd_id = p_id post, pd_created_at = p_created_at post, pd_type = classify post,
            pd_url = p_url post,
            pd_media_attachments = process_media_attachments (p_media_attachments post),
            pd_visibility = p_visibility post,
            pd_content = body,
            pd_reblogged_from = reblogged, pd_favorited_status = favorited \<rparr>)"

section \<open>Persisted posts and media files\<close>

text \<open>
  Lines 547-565 of \<^verbatim>\<open>get_profile_info\<close>. The media of a status are its own
  attachments followed by those of the post it reblogs. The file of a medium is named
  after the id of the reblogged post when there is one, else after the status itself;
  the extension is that of the URL, or follows the media type when the URL has none.
\<close>

definition status_media :: "post_dict \<Rightarrow> media list" where
  "status_media status =
     map process_media (map Dict_media (pd_media_attachments status)) @
     (case pd_reblogged_from status of
        Some rf \<Rightarrow> rf_media_attachments rf
      | None \<Rightarrow> [])"

definition media_file_ext :: "services \<Rightarrow> media \<Rightarrow> string" where
  "media_file_ext sv m =
     (let file_ext = splitext_ext sv (m_url m)
      in if file_ext = [] then (if m_type m = ''image'' then ''.jpg'' else ''.mp4'')
         else file_ext)"

definition media_post_id :: "post_dict \<Rightarrow> int" where
  "media_post_id status =
     (case pd_reblogged_from status of Some rf \<Rightarrow> rf_id rf | None \<Rightarrow> pd_id status)"

definition local_filename :: "services \<Rightarrow> post_dict \<Rightarrow> media \<Rightarrow> string" where
  "local_filename sv status m =
     str_int (media_post_id status) @ ''_'' @ str_int (m_id m) @ media_file_ext sv m"

text \<open>
  \<^verbatim>\<open>save_path\<close> joins the media directory and the file name; the path recorded
  in the medium is relative to the output directory.
\<close>

definition download_one :: "services \<Rightarrow> string \<Rightarrow> post_dict \<Rightarrow> media \<Rightarrow> media" where
  "download_one sv media_dir status m =
     (let save_path = media_dir @ ''/'' @ local_filename sv status m
      in if download_media sv (m_url m) save_path
         then m \<lparr> m_local_path := Some (''media/'' @ local_filename sv status m) \<rparr>
         else m)"

text \<open>
  The record appended to \<^verbatim>\<open>status_list\<close>, lines 570-591 (the \<^verbatim>\<open>type\<close> key is
  not copied; the reply list and the copied counters are left out). The media of the
  reblogged post are the same objects in the media list and under
  \<^verbatim>\<open>reblogged_from\<close> (line 551 extends the list with them), so the local path that a
  download writes into them shows in both; the status's own media are copies.
\<close>

record persisted_post =
  pp_id :: int
  pp_created_at :: string
  pp_content :: content
  pp_url :: string
  pp_media_attachments :: "media list"
  pp_visibility :: string
  pp_reblogged_from :: "reblogged_from option"
  pp_favorited_status :: "favorited_status option"

definition reconstruct_post ::
  "services \<Rightarrow> bool \<Rightarrow> string \<Rightarrow> post_dict \<Rightarrow> persisted_post" where
  "reconstruct_post sv download_media_files media_dir status =
     (let media_attachments =
            (if download_media_files
             then map (download_one sv media_dir status) (status_media status)
             else status_media status)
      in \<lparr> pp_id = pd_id status, pp_created_at = pd_created_at status,
           pp_content = pd_content status, pp_url = pd_url status,
           pp_media_attachments = media_attachments,
           pp_visibility = pd_visibility status,
           pp_reblogged_from =
             (case pd_reblogged_from status of
                None \<Rightarrow> None
              | Some rf \<Rightarrow>
                  Some (if download_media_files
                        then rf \<lparr> rf_media_attachments :=
                                    map (download_one sv media_dir status)
                                      (rf_media_attachments rf) \<rparr>
                        else rf)),
           pp_favorited_status = pd_favorited_status status \<rparr>)"

section \<open>IncrementalJournal\<close>

text \<open>
  Lines 594-611. The posts file is \<open>None\<close> while it does not exist, else the list it
  holds. \<^verbatim>\<open>status_list[-batch_size:]\<close> is the last \<open>batch_size\<close> records of the list,
  and the whole list when it is shorter. The modulus of line 595 raises on a zero batch
  size. Writing is taken to succeed.
\<close>

definition last_n :: "nat \<Rightarrow> 'a list \<Rightarrow> 'a list" where
  "last_n n xs = (if n = 0 then xs else drop (length xs - n) xs)"

definition flush_posts ::
  "nat \<Rightarrow> nat \<Rightarrow> nat \<Rightarrow> 'a list \<Rightarrow> 'a list option \<Rightarrow> error + 'a list option" where
  "flush_posts batch_size n i status_list posts_file =
     (if batch_size = 0 then Inl ZeroDivisionError
      else if (i + 1) mod batch_size = 0 \<or> i + 1 = n then
        (if i = 0 then Inr (Some status_list)
         else
           (case posts_file of
              Some existing_posts \<Rightarrow>
                Inr (Some (existing_posts @ last_n batch_size status_list))
            | None \<Rightarrow> Inr (Some status_list)))
      else Inr posts_file)"

text \<open>
  The \<^verbatim>\<open>for i, status in enumerate(statuses)\<close> loop, seen from the journal: each
  produced record is appended to \<^verbatim>\<open>status_list\<close> and the flush of that index runs.
\<close>

fun journal_posts ::
  "nat \<Rightarrow> nat \<Rightarrow> nat \<Rightarrow> 'a list \<Rightarrow> 'a list \<Rightarrow> 'a list option \<Rightarrow> error + 'a list option" where
  "journal_posts batch_size n i [] status_list posts_file = Inr posts_file"
| "journal_posts batch_size n i (record # rest) status_list posts_file =
     (case flush_posts batch_size n i (status_list @ [record]) posts_file of
        Inl e \<Rightarrow> Inl e
      | Inr posts_file' \<Rightarrow>
          journal_posts batch_size n (Suc i) rest (status_list @ [record]) posts_file')"

definition persist_posts :: "nat \<Rightarrow> 'a list \<Rightarrow> 'a list option \<Rightarrow> error + 'a list option" where
  "persist_posts batch_size records posts_file =
     journal_posts batch_size (length records) 0 records [] posts_file"

section \<open>PaginatedCollector\<close>

text \<open>
  The remote service is a state \<open>'w\<close> that the collector cannot see into; each paged
  request takes the state and answers with a result and the next state. The quota
  attributes of the client and the clock are read off the state. What the collector does
  to the outside, besides requests, is write advisories to the progress bar and sleep;
  both are kept in a log, in order. \<^verbatim>\<open>time.sleep\<close> raises ValueError on a negative
  duration.
\<close>

datatype 'c event = Notice advisory | Request 'c | Sleep rat

definition notices :: "advisory option \<Rightarrow> 'c event list" where
  "notices rate_limit_msg = (case rate_limit_msg of Some a \<Rightarrow> [Notice a] | None \<Rightarrow> [])"

definition sleep :: "rat \<Rightarrow> 'c event list \<Rightarrow> error + 'c event list" where
  "sleep seconds lg = (if seconds < 0 then Inl ValueError else Inr (lg @ [Sleep seconds]))"

datatype 's step = Continue 's | Break 's | Raise error

record counters =
  followers_count :: int
  following_count :: int
  statuses_count :: int

subsection \<open>Posts: cursor by max id\<close>

text \<open>
  \<^verbatim>\<open>mastodon.account_statuses(account_id, limit=40, max_id=...)\<close> returns a page, raises
  \<^verbatim>\<open>MastodonRatelimitError\<close>, or raises something else. The handler of lines
  465-467 reads the attribute \<^verbatim>\<open>reset_in\<close> of the exception it caught, which nothing
  in this module sets: \<open>Ratelimited None\<close> is the exception as the library raises it,
  without that attribute, and reading it raises AttributeError inside the handler;
  \<open>Ratelimited (Some d)\<close> is an exception object that carries one. The state of the
  service moves at these paged requests; the per-post lookups of the enrichment are
  answered by the functions of \<open>services\<close>.
\<close>

datatype fetched = Page "raw_post list" | Ratelimited "rat option" | Failed

record 'w client =
  quota_of :: "'w \<Rightarrow> quota"
  account :: "'w \<Rightarrow> (error + counters) \<times> 'w"
  account_statuses :: "'w \<Rightarrow> int option \<Rightarrow> fetched \<times> 'w"

record 'w posts_state =
  ps_world :: 'w
  ps_all_posts :: "post_dict list"
  ps_max_id :: "int option"
  ps_log :: "int option event list"

text \<open>Lines 307-309: \<^verbatim>\<open>max_id\<close> is sent when it is truthy, that is set and not zero.\<close>

definition request_cursor :: "int option \<Rightarrow> int option" where
  "request_cursor max_id =
     (case max_id of None \<Rightarrow> None | Some m \<Rightarrow> if m = 0 then None else Some m)"

text \<open>Lines 458-460: the test on \<^verbatim>\<open>max_count\<close>, which is \<^verbatim>\<open>None\<close> by default.\<close>

definition reached :: "nat option \<Rightarrow> nat \<Rightarrow> bool" where
  "reached max_count n = (case max_count of None \<Rightarrow> False | Some c \<Rightarrow> c \<noteq> 0 \<and> c \<le> n)"

definition truncate_to :: "nat option \<Rightarrow> 'a list \<Rightarrow> 'a list" where
  "truncate_to max_count xs = (case max_count of None \<Rightarrow> xs | Some c \<Rightarrow> take c xs)"

text \<open>
  One turn of the \<^verbatim>\<open>while True\<close> of \<^verbatim>\<open>get_all_posts\<close>, lines 299-467. The only
  handler is that of \<^verbatim>\<open>MastodonRatelimitError\<close>; the monitor runs before the
  \<^verbatim>\<open>try\<close>.
\<close>

definition posts_iteration ::
  "'w client \<Rightarrow> services \<Rightarrow> nat option \<Rightarrow> 'w posts_state \<Rightarrow> 'w posts_state step" where
  "posts_iteration cl sv max_count st =
     (case monitor_rate_limit (quota_of cl (ps_world st)) of
        Inl e \<Rightarrow> Raise e
      | Inr rate_limit_msg \<Rightarrow>
          (case account_statuses cl (ps_world st) (request_cursor (ps_max_id st)) of
             (result, w') \<Rightarrow>
               let st1 = st \<lparr> ps_world := w',
                              ps_log := ps_log st @ notices rate_limit_msg @
                                        [Request (request_cursor (ps_max_id st))] \<rparr>
               in
                 (case result of
                    Failed \<Rightarrow> Raise TransportError
                  | Ratelimited None \<Rightarrow> Raise AttributeError
                  | Ratelimited (Some reset_in) \<Rightarrow>
                      (case sleep reset_in (ps_log st1) of
                         Inl e \<Rightarrow> Raise e
                       | Inr lg \<Rightarrow> Continue (st1 \<lparr> ps_log := lg \<rparr>))
                  | Page batch \<Rightarrow>
                      if batch = [] then Break st1
                      else
                        let st2 = st1 \<lparr> ps_max_id := Some (p_id (last batch)) \<rparr>;
                            new_posts =
                              filter (\<lambda>post. p_id post \<notin> set (map pd_id (ps_all_posts st2)))
                                batch
                        in
                          if new_posts = [] then Break st2
                          else
                            let all_posts = ps_all_posts st2 @ map (process_post sv) new_posts
                            in
                              if reached max_count (length all_posts)
                              then Break (st2 \<lparr> ps_all_posts :=
                                                  truncate_to max_count all_posts \<rparr>)
                              else
                                (case sleep (1 / 2) (ps_log st2) of
                                   Inl e \<Rightarrow> Raise e
                                 | Inr lg \<Rightarrow>
                                     Continue (st2 \<lparr> ps_all_posts := all_posts,
                                                     ps_log := lg \<rparr>)))))"

text \<open>
  The loop, with fuel: \<open>None\<close> when the fuel runs out before the loop leaves, else the
  exception that left it or the state at the \<^verbatim>\<open>break\<close>.
\<close>

fun posts_loop ::
  "nat \<Rightarrow> 'w client \<Rightarrow> services \<Rightarrow> nat option \<Rightarrow> 'w posts_state \<Rightarrow>
   (error + 'w posts_state) option" where
  "posts_loop 0 cl sv max_count st = None"
| "posts_loop (Suc fuel) cl sv max_count st =
     (case posts_iteration cl sv max_count st of
        Continue st' \<Rightarrow> posts_loop fuel cl sv max_count st'
      | Break st' \<Rightarrow> Some (Inr st')
      | Raise e \<Rightarrow> Some (Inl e))"

text \<open>
  \<^verbatim>\<open>get_all_posts\<close>, lines 289-469: the account is fetched for the total of the
  progress bar, outside any handler; the list returned is \<open>ps_all_posts\<close> of the state.
\<close>

definition start_posts :: "'w \<Rightarrow> 'w posts_state" where
  "start_posts w = \<lparr> ps_world = w, ps_all_posts = [], ps_max_id = None, ps_log = [] \<rparr>"

definition get_all_posts ::
  "nat \<Rightarrow> 'w client \<Rightarrow> services \<Rightarrow> nat option \<Rightarrow> 'w \<Rightarrow> (error + 'w posts_state) option" where
  "get_all_posts fuel cl sv max_count w =
     (case account cl w of
        (Inl e, w') \<Rightarrow> Some (Inl e)
      | (Inr acct, w') \<Rightarrow>
          posts_loop fuel cl sv max_count (start_posts w'))"

subsection \<open>Followers and following: link header\<close>

text \<open>
  \<^verbatim>\<open>requests.get\<close> raises a \<^verbatim>\<open>RequestException\<close> before any response is there, or
  returns a response; of its headers the loop reads \<^verbatim>\<open>Link\<close> and \<^verbatim>\<open>Retry-After\<close>.
  Items are the JSON objects of the body. The query of the next link is parsed by
  \<^verbatim>\<open>urlparse\<close> and \<^verbatim>\<open>parse_qs\<close>, and \<^verbatim>\<open>Retry-After\<close> by \<^verbatim>\<open>int\<close> (\<open>None\<close> is its
  ValueError); both are library functions and parameters here.
\<close>

record account_json =
  aj_id :: string
  aj_username :: string
  aj_display_name :: string
  aj_url :: string

record http_response =
  status_code :: nat
  link_header :: "string option"
  retry_after_header :: "string option"
  json :: "account_json list"

datatype http_result = Request_failed | Response http_response

type_synonym params = "(string \<times> string) list"

record 'w http_client =
  http_quota_of :: "'w \<Rightarrow> quota"
  http_account :: "'w \<Rightarrow> (error + counters) \<times> 'w"
  http_get :: "'w \<Rightarrow> params \<Rightarrow> http_result \<times> 'w"
  query_params :: "string \<Rightarrow> params"
  py_int :: "string \<Rightarrow> int option"

record 'w follow_state =
  fl_world :: 'w
  fl_items :: "account_json list"
  fl_params :: params
  fl_response :: "http_response option"
  fl_log :: "params event list"

text \<open>Lines 139-145: the first link of the header that mentions \<^verbatim>\<open>rel="next"\<close>.\<close>

definition rel_next :: string where
  "rel_next = ''rel='' @ [CHR 0x22] @ ''next'' @ [CHR 0x22]"

fun find_next_link :: "string list \<Rightarrow> string option" where
  "find_next_link [] = None"
| "find_next_link (link # links) =
     (if py_in rel_next link
      then (case split_on CHR '';'' link of
              [] \<Rightarrow> None
            | first # _ \<Rightarrow> Some (strip ''<>'' first))
      else find_next_link links)"

text \<open>
  The handler of lines 166-174. It reads the variable \<^verbatim>\<open>response\<close>, which holds the
  last response \<^verbatim>\<open>requests.get\<close> returned, and is unbound before the first one.
\<close>

definition on_request_exception ::
  "'w http_client \<Rightarrow> 'w follow_state \<Rightarrow> 'w follow_state step" where
  "on_request_exception cl st =
     (case fl_response st of
        None \<Rightarrow> Raise UnboundLocalError
      | Some response \<Rightarrow>
          if status_code response = 429 then
            (case (case retry_after_header response of
                     None \<Rightarrow> Some 60
                   | Some v \<Rightarrow> py_int cl v) of
               None \<Rightarrow> Raise ValueError
             | Some retry_after \<Rightarrow>
                 (case sleep (rat_of_int retry_after) (fl_log st) of
                    Inl e \<Rightarrow> Raise e
                  | Inr lg \<Rightarrow> Continue (st \<lparr> fl_log := lg \<rparr>)))
          else Break st)"

text \<open>One turn of the \<^verbatim>\<open>while True\<close> of lines 115-174.\<close>

definition follow_iteration ::
  "'w http_client \<Rightarrow> int \<Rightarrow> 'w follow_state \<Rightarrow> 'w follow_state step" where
  "follow_iteration cl expected_total st =
     (case monitor_rate_limit (http_quota_of cl (fl_world st)) of
        Inl e \<Rightarrow> Raise e
      | Inr rate_limit_msg \<Rightarrow>
          (case http_get cl (fl_world st) (fl_params st) of
             (result, w') \<Rightarrow>
               let st1 = st \<lparr> fl_world := w',
                              fl_log := fl_log st @ notices rate_limit_msg @
                                        [Request (fl_params st)] \<rparr>
               in
                 (case result of
                    Request_failed \<Rightarrow> on_request_exception cl st1
                  | Response response \<Rightarrow>
                      let st2 = st1 \<lparr> fl_response := Some response \<rparr> in
                      if 400 \<le> status_code response \<and> status_code response < 600
                      then on_request_exception cl st2
                      else if json response = [] then Break st2
                      else
                        let new_items =
                              filter (\<lambda>item. aj_id item \<notin> set (map aj_id (fl_items st2)))
                                (json response)
                        in
                          if new_items = [] then Break st2
                          else
                            let st3 = st2 \<lparr> fl_items := fl_items st2 @ new_items \<rparr> in
                            (case link_header response of
                               None \<Rightarrow> Break st3
                             | Some link \<Rightarrow>
                                 (case find_next_link (split_on CHR '','' link) of
                                    None \<Rightarrow> Break st3
                                  | Some next_link \<Rightarrow>
                                      if next_link = [] then Break st3
                                      else
                                        let st4 = st3 \<lparr> fl_params :=
                                                          query_params cl next_link \<rparr>
                                        in
                                          if expected_total \<le> int (length (fl_items st4))
                                          then Break st4
                                          else
                                            (case sleep (1 / 2) (fl_log st4) of
                                               Inl e \<Rightarrow> Raise e
                                             | Inr lg \<Rightarrow>
                                                 Continue (st4 \<lparr> fl_log := lg \<rparr>)))))))"

fun follow_loop ::
  "nat \<Rightarrow> 'w http_client \<Rightarrow> int \<Rightarrow> 'w follow_state \<Rightarrow> (error + 'w follow_state) option" where
  "follow_loop 0 cl expected_total st = None"
| "follow_loop (Suc fuel) cl expected_total st =
     (case follow_iteration cl expected_total st of
        Continue st' \<Rightarrow> follow_loop fuel cl expected_total st'
      | Break st' \<Rightarrow> Some (Inr st')
      | Raise e \<Rightarrow> Some (Inl e))"

text \<open>
  \<^verbatim>\<open>get_followers_or_following_direct\<close>, lines 100-176. The expected total is the
  counter of the account for the list asked for; the first request asks for 80 items.
\<close>

definition start_follow :: "'w \<Rightarrow> 'w follow_state" where
  "start_follow w =
     \<lparr> fl_world = w, fl_items = [], fl_params = [(''limit'', ''80'')], fl_response = None,
       fl_log = [] \<rparr>"

definition get_followers_or_following_direct ::
  "nat \<Rightarrow> 'w http_client \<Rightarrow> string \<Rightarrow> 'w \<Rightarrow> (error + 'w follow_state) option" where
  "get_followers_or_following_direct fuel cl type_list w =
     (case http_account cl w of
        (Inl e, w') \<Rightarrow> Some (Inl e)
      | (Inr acct, w') \<Rightarrow>
          follow_loop fuel cl
            (if type_list = ''followers'' then followers_count acct else following_count acct)
            (start_follow w'))"

section \<open>Sample inputs\<close>

definition offline_services :: services where
  "offline_services =
     \<lparr> clean_content = (\<lambda>html. \<lparr> c_text = html, c_hashtags = [], c_mentions = [], c_urls = [] \<rparr>),
       status_lookup = (\<lambda>status_id. None),
       splitext_ext = (\<lambda>url. []),
       download_media = (\<lambda>url save_path. False) \<rparr>"

definition activity_feed_post :: raw_post where
  "activity_feed_post =
     \<lparr> p_id = 7, p_created_at = ''2024-01-01 00:00:00'', p_reblog = None, p_content = [],
       p_url = ''https://example.social/activity/42'', p_visibility = ''public'',
       p_media_attachments = [] \<rparr>"

definition favorite_marker_post :: raw_post where
  "favorite_marker_post =
     \<lparr> p_id = 8, p_created_at = ''2024-01-02 00:00:00'', p_reblog = None, p_content = [],
       p_url = ''https://example.social/users/alice/statuses/42/activity'',
       p_visibility = ''public'', p_media_attachments = [] \<rparr>"

definition sample_image :: media where
  "sample_image =
     \<lparr> m_id = 5, m_type = ''image'', m_url = ''https://files.example.social/5'',
       m_preview_url = ''https://files.example.social/5s'', m_description = None,
       m_meta = None, m_local_path = None \<rparr>"

definition sample_original :: raw_status where
  "sample_original =
     \<lparr> s_id = 100, s_content = ''<p>hello</p>'',
       s_account = \<lparr> a_username = ''bob'', a_display_name = ''Bob'',
                      a_url = ''https://other.social/@bob'' \<rparr>,
       s_created_at = ''2023-12-31 00:00:00'',
       s_media_attachments = [Dict_media sample_image] \<rparr>"

definition reblog_by :: "int \<Rightarrow> string \<Rightarrow> raw_post" where
  "reblog_by post_id url =
     \<lparr> p_id = post_id, p_created_at = ''2024-01-03 00:00:00'',
       p_reblog = Some sample_original, p_content = [], p_url = url,
       p_visibility = ''public'', p_media_attachments = [] \<rparr>"

section \<open>Synthetic sources\<close>

definition steady_quota :: quota where
  "steady_quota =
     \<lparr> ratelimit_remaining = Some 300, ratelimit_limit = Some 300, ratelimit_reset = 0,
       clock = 0 \<rparr>"

definition sample_counters :: counters where
  "sample_counters = \<lparr> followers_count = 5, following_count = 5, statuses_count = 5 \<rparr>"

definition plain_post :: "int \<Rightarrow> raw_post" where
  "plain_post post_id =
     \<lparr> p_id = post_id, p_created_at = ''2024-01-04 00:00:00'', p_reblog = None,
       p_content = ''<p>post</p>'', p_url = ''https://example.social/@alice/post'',
       p_visibility = ''unlisted'', p_media_attachments = [] \<rparr>"

definition sample_account :: "string \<Rightarrow> account_json" where
  "sample_account account_id =
     \<lparr> aj_id = account_id, aj_username = ''carol'', aj_display_name = ''Carol'',
       aj_url = ''https://third.social/@carol'' \<rparr>"

definition next_link_header :: string where
  "next_link_header =
     ''<https://example.social/api/v1/accounts/1/followers?max_id=7>; '' @ rel_next"

definition sample_query_params :: "string \<Rightarrow> params" where
  "sample_query_params link = [(''next'', link)]"

definition sample_py_int :: "string \<Rightarrow> int option" where
  "sample_py_int v = (if v = ''30'' then Some 30 else None)"

text \<open>
  Sources whose state counts the requests served. The first page of the flaky ones
  arrives and their second request fails.
\<close>

definition flaky_client :: "nat client" where
  "flaky_client =
     \<lparr> quota_of = (\<lambda>w. steady_quota),
       account = (\<lambda>w. (Inr sample_counters, w)),
       account_statuses =
         (\<lambda>w cursor. (if w = 0 then Page [plain_post 9, plain_post 8] else Failed, Suc w)) \<rparr>"

definition flaky_http :: "nat http_client" where
  "flaky_http =
     \<lparr> http_quota_of = (\<lambda>w. steady_quota),
       http_account = (\<lambda>w. (Inr sample_counters, w)),
       http_get =
         (\<lambda>w ps.
            (if w = 0
             then Response \<lparr> status_code = 200, link_header = Some next_link_header,
                             retry_after_header = None,
                             json = [sample_account ''1'', sample_account ''2''] \<rparr>
             else Request_failed, Suc w)),
       query_params = sample_query_params,
       py_int = sample_py_int \<rparr>"

text \<open>A followers source none of whose requests gets a response.\<close>

definition dead_http :: "nat http_client" where
  "dead_http =
     \<lparr> http_quota_of = (\<lambda>w. steady_quota),
       http_account = (\<lambda>w. (Inr sample_counters, w)),
       http_get = (\<lambda>w ps. (Request_failed, Suc w)),
       query_params = sample_query_params,
       py_int = sample_py_int \<rparr>"

definition after_first_page :: "nat posts_state" where
  "after_first_page =
     \<lparr> ps_world = 1,
       ps_all_posts = map (process_post offline_services) [plain_post 9, plain_post 8],
       ps_max_id = Some 8,
       ps_log = [Request None, Sleep (1 / 2)] \<rparr>"

text \<open>A source whose first page is not ordered by id.\<close>

definition shuffled_client :: "nat client" where
  "shuffled_client =
     \<lparr> quota_of = (\<lambda>w. steady_quota),
       account = (\<lambda>w. (Inr sample_counters, w)),
       account_statuses =
         (\<lambda>w cursor.
            (if w = 0 then Page [plain_post 5, plain_post 3, plain_post 7] else Page [],
             Suc w)) \<rparr>"

text \<open>
  Sources that signal a rate limit on the first request only: the posts source by the
  library's exception, the followers source by a 429 response that asks for 30 seconds.
\<close>

definition throttled_client :: "nat client" where
  "throttled_client =
     \<lparr> quota_of = (\<lambda>w. steady_quota),
       account = (\<lambda>w. (Inr sample_counters, w)),
       account_statuses =
         (\<lambda>w cursor.
            (if w = 0 then Ratelimited None
             else if w = 1 then Page [plain_post 9]
             else Page [], Suc w)) \<rparr>"

definition throttled_http :: "nat http_client" where
  "throttled_http =
     \<lparr> http_quota_of = (\<lambda>w. steady_quota),
       http_account = (\<lambda>w. (Inr sample_counters, w)),
       http_get =
         (\<lambda>w ps.
            (if w = 0
             then Response \<lparr> status_code = 429, link_header = None,
                             retry_after_header = Some ''30'', json = [] \<rparr>
             else Response \<lparr> status_code = 200, link_header = None,
                             retry_after_header = None,
                             json = [sample_account ''1''] \<rparr>, Suc w)),
       query_params = sample_query_params,
       py_int = sample_py_int \<rparr>"










section \<open>Strings\<close>

lemma py_in_iff: "py_in needle hay \<longleftrightarrow> (\<exists>pre suf. hay = pre @ needle @ suf)"
proof (induction hay)
  case Nil
  then show ?case by auto
next
  case (Cons c cs)
  show ?case
  proof
    assume "py_in needle (c # cs)"
    then consider "prefix needle (c # cs)" | "py_in needle cs" by auto
    then show "\<exists>pre suf. c # cs = pre @ needle @ suf"
    proof cases
      case 1
      then obtain suf where "c # cs = needle @ suf" by (auto simp: prefix_def)
      then have "c # cs = [] @ needle @ suf" by simp
      then show ?thesis by blast
    next
      case 2
      with Cons.IH obtain pre suf where "cs = pre @ needle @ suf" by blast
      then have "c # cs = (c # pre) @ needle @ suf" by simp
      then show ?thesis by blast
    qed
  next
    assume "\<exists>pre suf. c # cs = pre @ needle @ suf"
    then obtain pre suf where eq: "c # cs = pre @ needle @ suf" by blast
    show "py_in needle (c # cs)"
    proof (cases pre)
      case Nil
      with eq have "prefix needle (c # cs)" by (simp add: prefix_def)
      then show ?thesis by simp
    next
      case (Cons a pre')
      with eq have "cs = pre' @ needle @ suf" by simp
      with Cons.IH have "py_in needle cs" by blast
      then show ?thesis by simp
    qed
  qed
qed

section \<open>The rate-limit monitor\<close>

text \<open>
  C10. The monitor divides \<^verbatim>\<open>remaining\<close> by \<^verbatim>\<open>limit\<close> with no guard as soon as both
  are set: with a limit of zero and a known remaining count it raises ZeroDivisionError
  instead of returning nothing, and in every other case it returns (an advisory or
  nothing) without an error.
\<close>

theorem monitor_rate_limit_division:
  "(ratelimit_remaining q \<noteq> None \<and> ratelimit_limit q = Some 0 \<longrightarrow>
      monitor_rate_limit q = Inl ZeroDivisionError) \<and>
   (ratelimit_remaining q = None \<or> ratelimit_limit q \<noteq> Some 0 \<longrightarrow>
      (\<exists>a. monitor_rate_limit q = Inr a))"
  by (auto simp: monitor_rate_limit_def Let_def split: option.splits)

theorem monitor_rate_limit_division_witness:
  "monitor_rate_limit
     \<lparr> ratelimit_remaining = Some 5, ratelimit_limit = Some 0, ratelimit_reset = 10,
       clock = 3 \<rparr> = Inl ZeroDivisionError \<and>
   (\<exists>a. monitor_rate_limit
     \<lparr> ratelimit_remaining = Some 5, ratelimit_limit = Some 300, ratelimit_reset = 10,
       clock = 3 \<rparr> = Inr a)"
  using monitor_rate_limit_division
          [of "\<lparr> ratelimit_remaining = Some 5, ratelimit_limit = Some 0, ratelimit_reset = 10,
                 clock = 3 \<rparr>"]
        monitor_rate_limit_division
          [of "\<lparr> ratelimit_remaining = Some 5, ratelimit_limit = Some 300, ratelimit_reset = 10,
                 clock = 3 \<rparr>"]
  by simp

section \<open>Classification and cross-references\<close>

text \<open>
  C2, as stated, fails: a post with an empty body whose URL has \<^verbatim>\<open>/activity\<close> in the
  middle, not at the end, is classified \<open>Favorite\<close>.
\<close>

theorem classify_substring_counterexample:
  "classify activity_feed_post = Favorite \<and>
   \<not> suffix ''/activity'' (p_url activity_feed_post)"
  by (simp add: classify_def activity_feed_post_def suffix_def)

text \<open>
  C2, amended. A post with a reblog payload is \<open>Reblog\<close> whatever its body. Without
  one, it is \<open>Favorite\<close> exactly when its body is empty and its URL contains
  \<^verbatim>\<open>/activity\<close> somewhere, and \<open>Original\<close> exactly when one of the two fails.
\<close>

theorem classify_rule:
  "(p_reblog post \<noteq> None \<longrightarrow> classify post = Reblog) \<and>
   (p_reblog post = None \<longrightarrow>
      (classify post = Favorite \<longleftrightarrow>
         p_content post = [] \<and> (\<exists>pre suf. p_url post = pre @ ''/activity'' @ suf))) \<and>
   (p_reblog post = None \<longrightarrow>
      (classify post = Original \<longleftrightarrow>
         \<not> (p_content post = [] \<and> (\<exists>pre suf. p_url post = pre @ ''/activity'' @ suf))))"
  unfolding classify_def py_in_iff by simp

theorem classify_rule_witness:
  "classify (reblog_by 1 ''https://example.social/@alice/1'') = Reblog \<and>
   classify favorite_marker_post = Favorite \<and>
   classify (favorite_marker_post \<lparr> p_content := ''<p>hi</p>'' \<rparr>) = Original"
proof -
  have u: "p_url favorite_marker_post =
           ''https://example.social/users/alice/statuses/42'' @ ''/activity'' @ []"
    by (simp add: favorite_marker_post_def)
  then have ex: "\<exists>pre suf. p_url favorite_marker_post = pre @ ''/activity'' @ suf"
    by blast
  have r: "p_reblog favorite_marker_post = None" and c: "p_content favorite_marker_post = []"
    by (simp_all add: favorite_marker_post_def)
  have "classify (reblog_by 1 ''https://example.social/@alice/1'') = Reblog"
    using classify_rule [of "reblog_by 1 ''https://example.social/@alice/1''"]
    by (simp add: reblog_by_def)
  moreover have "classify favorite_marker_post = Favorite"
    using classify_rule [of favorite_marker_post] ex r c by blast
  moreover have "classify (favorite_marker_post \<lparr> p_content := ''<p>hi</p>'' \<rparr>) = Original"
    using classify_rule [of "favorite_marker_post \<lparr> p_content := ''<p>hi</p>'' \<rparr>"] r
    by simp
  ultimately show ?thesis by simp
qed

text \<open>
  C5, as stated, fails: a favorite whose original cannot be fetched is persisted with
  neither \<^verbatim>\<open>reblogged_from\<close> nor \<^verbatim>\<open>favorited_status\<close>.
\<close>

theorem cross_reference_unresolved_counterexample:
  "classify favorite_marker_post = Favorite \<and>
   pp_reblogged_from
     (reconstruct_post offline_services True ''out/media''
        (process_post offline_services favorite_marker_post)) = None \<and>
   pp_favorited_status
     (reconstruct_post offline_services True ''out/media''
        (process_post offline_services favorite_marker_post)) = None"
  by (simp add: classify_def favorite_marker_post_def offline_services_def
      reconstruct_post_def process_post_def cross_reference_def resolve_favorite_def
      second_to_last_def Let_def)

text \<open>
  C5, amended. In the persisted record of a reblog, \<^verbatim>\<open>reblogged_from\<close> is set and
  \<^verbatim>\<open>favorited_status\<close> is null; in that of a favorite, \<^verbatim>\<open>reblogged_from\<close> is null
  and \<^verbatim>\<open>favorited_status\<close> is set exactly when the original status was resolved; in
  that of an original post both are null. So at most one of the two is ever set, and
  only for the matching type.
\<close>

theorem cross_reference_fields:
  "(classify post = Reblog \<longrightarrow>
      pp_reblogged_from (reconstruct_post sv dl dir (process_post sv post)) \<noteq> None \<and>
      pp_favorited_status (reconstruct_post sv dl dir (process_post sv post)) = None) \<and>
   (classify post = Favorite \<longrightarrow>
      pp_reblogged_from (reconstruct_post sv dl dir (process_post sv post)) = None \<and>
      (pp_favorited_status (reconstruct_post sv dl dir (process_post sv post)) \<noteq> None
         \<longleftrightarrow> resolve_favorite sv post \<noteq> None)) \<and>
   (classify post = Original \<longrightarrow>
      pp_reblogged_from (reconstruct_post sv dl dir (process_post sv post)) = None \<and>
      pp_favorited_status (reconstruct_post sv dl dir (process_post sv post)) = None)"
  by (auto simp: reconstruct_post_def process_post_def cross_reference_def classify_def Let_def
      split: option.splits if_splits prod.splits)

theorem cross_reference_fields_witness:
  "pp_reblogged_from
     (reconstruct_post offline_services False ''out/media''
        (process_post offline_services (reblog_by 11 ''https://example.social/@alice/11'')))
     \<noteq> None \<and>
   pp_favorited_status
     (reconstruct_post offline_services False ''out/media''
        (process_post offline_services (reblog_by 11 ''https://example.social/@alice/11'')))
     = None"
proof -
  have "classify (reblog_by 11 ''https://example.social/@alice/11'') = Reblog"
    by (simp add: classify_def reblog_by_def)
  then show ?thesis
    using cross_reference_fields
            [of "reblog_by 11 ''https://example.social/@alice/11''" offline_services False
                "''out/media''"]
    by blast
qed

text \<open>
  C6, as stated, fails on the text of the placeholder: it is
  \<^verbatim>\<open>Action non disponible\<close>, not \<^verbatim>\<open><unavailable>\<close>.
\<close>

theorem favorite_placeholder_counterexample:
  "classify favorite_marker_post = Favorite \<and>
   resolve_favorite offline_services favorite_marker_post = None \<and>
   c_text (pd_content (process_post offline_services favorite_marker_post))
     = ''Action non disponible'' \<and>
   c_text (pd_content (process_post offline_services favorite_marker_post))
     \<noteq> ''<unavailable>''"
  by (simp add: classify_def favorite_marker_post_def offline_services_def
      process_post_def cross_reference_def resolve_favorite_def unavailable_content_def
      second_to_last_def)

text \<open>
  C6, amended. For a post classified \<open>Favorite\<close> whose original cannot be resolved,
  for whatever reason, the post is still produced, with its own id and URL, and its
  content is the fixed body with text \<^verbatim>\<open>Action non disponible\<close> and empty lists of
  hashtags, mentions and URLs.
\<close>

theorem favorite_placeholder:
  "classify post = Favorite \<Longrightarrow> resolve_favorite sv post = None \<Longrightarrow>
   process_post sv post =
     \<lparr> pd_id = p_id post, pd_created_at = p_created_at post, pd_type = Favorite,
       pd_url = p_url post,
       pd_media_attachments = process_media_attachments (p_media_attachments post),
       pd_visibility = p_visibility post,
       pd_content = \<lparr> c_text = ''Action non disponible'', c_hashtags = [], c_mentions = [],
                       c_urls = [] \<rparr>,
       pd_reblogged_from = None, pd_favorited_status = None \<rparr>"
  by (simp add: process_post_def cross_reference_def unavailable_content_def)

theorem favorite_placeholder_witness:
  "process_post offline_services favorite_marker_post =
     \<lparr> pd_id = 8, pd_created_at = ''2024-01-02 00:00:00'', pd_type = Favorite,
       pd_url = ''https://example.social/users/alice/statuses/42/activity'',
       pd_media_attachments = [],
       pd_visibility = ''public'',
       pd_content = \<lparr> c_text = ''Action non disponible'', c_hashtags = [], c_mentions = [],
                       c_urls = [] \<rparr>,
       pd_reblogged_from = None, pd_favorited_status = None \<rparr>"
proof -
  have c: "classify favorite_marker_post = Favorite"
    by (simp add: classify_def favorite_marker_post_def)
  have r: "resolve_favorite offline_services favorite_marker_post = None"
    by (simp add: resolve_favorite_def favorite_marker_post_def offline_services_def
        second_to_last_def)
  show ?thesis
    using favorite_placeholder [OF c r]
    by (simp add: favorite_marker_post_def process_media_attachments_def)
qed

section \<open>Media file names\<close>

text \<open>
  C9. The local file name of a medium is the post id, an underscore, the media id and
  the extension, where the post id is that of the reblogged original when the status is
  a reblog and that of the status itself otherwise. So two reblogs, by whatever accounts
  and with whatever ids of their own, of originals with the same id give the same file
  name to the same attached medium.
\<close>

theorem reblog_media_filename:
  "(p_reblog p1 = Some r1 \<and> p_reblog p2 = Some r2 \<and> s_id r1 = s_id r2 \<longrightarrow>
      local_filename sv (process_post sv p1) m = local_filename sv (process_post sv p2) m \<and>
      local_filename sv (process_post sv p1) m =
        str_int (s_id r1) @ ''_'' @ str_int (m_id m) @ media_file_ext sv m) \<and>
   (p_reblog p1 = None \<longrightarrow>
      local_filename sv (process_post sv p1) m =
        str_int (p_id p1) @ ''_'' @ str_int (m_id m) @ media_file_ext sv m)"
  by (auto simp: local_filename_def media_post_id_def process_post_def cross_reference_def
      classify_def split: option.splits prod.splits)

theorem reblog_media_filename_witness:
  "local_filename offline_services
     (process_post offline_services (reblog_by 11 ''https://example.social/@alice/11''))
     sample_image =
   local_filename offline_services
     (process_post offline_services (reblog_by 12 ''https://third.social/@carol/12''))
     sample_image \<and>
   local_filename offline_services
     (process_post offline_services (reblog_by 11 ''https://example.social/@alice/11''))
     sample_image = ''100_5.jpg''"
proof -
  have a: "p_reblog (reblog_by 11 ''https://example.social/@alice/11'') = Some sample_original"
    and b: "p_reblog (reblog_by 12 ''https://third.social/@carol/12'') = Some sample_original"
    by (simp_all add: reblog_by_def)
  have n: "str_int (s_id sample_original) @ ''_'' @ str_int (m_id sample_image) @
           media_file_ext offline_services sample_image = ''100_5.jpg''"
    by (simp add: sample_original_def sample_image_def offline_services_def
        media_file_ext_def str_int_def str_nat.simps)
  have t: "local_filename offline_services
              (process_post offline_services (reblog_by 11 ''https://example.social/@alice/11''))
              sample_image =
            local_filename offline_services
              (process_post offline_services (reblog_by 12 ''https://third.social/@carol/12''))
              sample_image \<and>
            local_filename offline_services
              (process_post offline_services (reblog_by 11 ''https://example.social/@alice/11''))
              sample_image =
            str_int (s_id sample_original) @ ''_'' @ str_int (m_id sample_image) @
              media_file_ext offline_services sample_image"
    using reblog_media_filename
            [of "reblog_by 11 ''https://example.social/@alice/11''" sample_original
                "reblog_by 12 ''https://third.social/@carol/12''" sample_original
                offline_services sample_image]
          a b
    by blast
  from t n show ?thesis by metis
qed

section \<open>The posts journal\<close>

text \<open>
  When the number of records is a multiple of the batch size, every flush falls on a
  full batch and the file, absent at the start, ends up holding the records as produced.
\<close>

lemma journal_whole_batches_invariant:
  assumes "0 < B" and "B dvd length records"
  shows "records = status_list @ rest \<Longrightarrow>
         posts_file =
           (if length status_list < B then None
            else Some (take (length status_list - length status_list mod B) records)) \<Longrightarrow>
         journal_posts B (length records) (length status_list) rest status_list posts_file =
           Inr (if length records < B then None else Some records)"
proof (induction rest arbitrary: status_list posts_file)
  case Nil
  then have "length status_list = length records" by simp
  moreover from assms(2) have "length records mod B = 0" by auto
  ultimately show ?case using Nil by simp
next
  case (Cons r rest)
  let ?i = "length status_list"
  let ?sl = "status_list @ [r]"
  have rec: "records = ?sl @ rest" using Cons.prems(1) by simp
  have tk: "take (Suc ?i) records = ?sl" using rec by simp
  have last_is_flush: "Suc ?i mod B = 0" if "Suc ?i = length records"
    using that assms(2) by (metis dvd_imp_mod_0)
  show ?case
  proof (cases "Suc ?i mod B = 0")
    case True
    have file': "flush_posts B (length records) ?i ?sl posts_file = Inr (Some ?sl)"
    proof (cases "?i = 0")
      case True
      then show ?thesis using assms(1) \<open>Suc ?i mod B = 0\<close>
        by (simp add: flush_posts_def)
    next
      case False
      show ?thesis
      proof (cases "?i < B")
        case True
        with Cons.prems(2) have "posts_file = None" by simp
        then show ?thesis using assms(1) \<open>Suc ?i mod B = 0\<close> False
          by (simp add: flush_posts_def)
      next
        case False
        from \<open>Suc ?i mod B = 0\<close> assms(1) have m: "Suc (?i mod B) = B"
          by (metis mod_Suc nat.distinct(1))
        then have e: "?i - ?i mod B = Suc ?i - B"
          by (metis False Suc_diff_le diff_Suc_Suc diff_diff_left le_add2 mod_less_eq_dividend not_less plus_1_eq_Suc add.commute diff_diff_cancel)
        from False Cons.prems(2) have pf: "posts_file = Some (take (Suc ?i - B) records)"
          by (simp add: e)
        have "take (Suc ?i - B) records = take (Suc ?i - B) ?sl"
          using rec assms(1) by simp
        moreover have "last_n B ?sl = drop (Suc ?i - B) ?sl"
          using assms(1) by (simp add: last_n_def)
        ultimately have "take (Suc ?i - B) records @ last_n B ?sl = ?sl"
          by (metis append_take_drop_id)
        then show ?thesis using assms(1) \<open>Suc ?i mod B = 0\<close> \<open>?i \<noteq> 0\<close> pf
          by (simp add: flush_posts_def)
      qed
    qed
    have inv: "Some ?sl =
               (if length ?sl < B then None
                else Some (take (length ?sl - length ?sl mod B) records))"
    proof -
      from True assms(1) have "B \<le> Suc ?i" by (metis Suc_leI mod_less nat.distinct(1) not_less)
      then show ?thesis using True tk by simp
    qed
    have "journal_posts B (length records) (length ?sl) rest ?sl (Some ?sl) =
            Inr (if length records < B then None else Some records)"
      by (rule Cons.IH [OF rec inv])
    then show ?thesis using file' by simp
  next
    case False
    with last_is_flush have notlast: "Suc ?i \<noteq> length records" by blast
    have file': "flush_posts B (length records) ?i ?sl posts_file = Inr posts_file"
      using assms(1) False notlast by (simp add: flush_posts_def)
    from False have m: "Suc ?i mod B = Suc (?i mod B)"
      by (metis mod_Suc)
    have lt: "Suc ?i < B \<longleftrightarrow> ?i < B"
      using False by (metis Suc_lessD Suc_lessI mod_self)
    have e: "Suc ?i - Suc ?i mod B = ?i - ?i mod B"
      using m by simp
    have inv: "posts_file =
               (if length ?sl < B then None
                else Some (take (length ?sl - length ?sl mod B) records))"
      using Cons.prems(2) lt e by simp
    have "journal_posts B (length records) (length ?sl) rest ?sl posts_file =
            Inr (if length records < B then None else Some records)"
      by (rule Cons.IH [OF rec inv])
    then show ?thesis using file' by simp
  qed
qed

lemma journal_whole_batches:
  assumes "0 < B" and "B dvd length records"
  shows "persist_posts B records None = Inr (if records = [] then None else Some records)"
proof -
  have "journal_posts B (length records) (length ([]::'a list)) records [] None =
          Inr (if length records < B then None else Some records)"
    by (rule journal_whole_batches_invariant [OF assms]) (simp_all add: assms(1))
  moreover have "length records < B \<longleftrightarrow> records = []"
    using assms by (metis dvd_imp_le length_0_conv length_greater_0_conv not_less)
  ultimately show ?thesis by (simp add: persist_posts_def)
qed

text \<open>
  C1 at the batch size of the source, 20, and 25 records numbered from 0, on a posts
  file that does not exist yet. The flush at the twentieth record writes the first 20;
  the flush at the last record appends the last 20 of the list, not the 5 new ones, so
  the file ends with 40 records and holds records 5 to 19 twice.
\<close>

theorem journal_partial_batch:
  "persist_posts 20 [0..<25] None = Inr (Some ([0..<20] @ [5..<25])) \<and>
   persist_posts 20 [0..<25] None \<noteq> Inr (Some [0..<25])"
  by code_simp

section \<open>The collection loops\<close>

lemma steady_ok: "monitor_rate_limit steady_quota = Inr None"
  by (simp add: monitor_rate_limit_def steady_quota_def)

text \<open>
  C3 on a posts source whose first page arrives and whose second request fails with
  something other than a rate limit: \<^verbatim>\<open>get_all_posts\<close> has a handler for
  \<^verbatim>\<open>MastodonRatelimitError\<close> only, so the failure leaves it as an exception and the
  two posts of the first page are not returned. The followers loop, on a source that
  behaves the same way, stops and returns the two accounts it has; when its very first
  request fails, its handler reads \<^verbatim>\<open>response\<close> before any response was bound and
  the loop is left by that error instead of returning the empty list.
\<close>

theorem posts_failure_propagates:
  "map_option (map_sum id ps_all_posts)
     (get_all_posts (Suc (Suc fuel)) flaky_client offline_services None 0)
     = Some (Inl TransportError) \<and>
   map_option (map_sum id fl_items)
     (get_followers_or_following_direct (Suc (Suc fuel)) flaky_http ''followers'' 0)
     = Some (Inr [sample_account ''1'', sample_account ''2'']) \<and>
   map_option (map_sum id fl_items)
     (get_followers_or_following_direct (Suc fuel) dead_http ''followers'' 0)
     = Some (Inl UnboundLocalError)"
  by (simp add: get_all_posts_def start_posts_def start_follow_def flaky_client_def
        posts_iteration_def steady_ok
        request_cursor_def notices_def sleep_def reached_def Let_def plain_post_def
        get_followers_or_following_direct_def flaky_http_def follow_iteration_def
        on_request_exception_def sample_counters_def next_link_header_def rel_next_def
        sample_account_def dead_http_def)

lemma Min_last_of_descending:
  fixes xs :: "int list"
  assumes "sorted (rev xs)" and "xs \<noteq> []"
  shows "Min (set xs) = last xs"
proof (rule Min_eqI)
  show "finite (set xs)" by simp
  show "last xs \<in> set xs" using assms(2) by simp
  fix y assume y: "y \<in> set xs"
  from assms(2) have "rev xs = last xs # rev (butlast xs)"
    by (metis append_butlast_last_id rev.simps(2) rev_rev_ident rev_singleton_conv rev_append append_Cons append_Nil)
  with assms(1) have "\<forall>z \<in> set (rev (butlast xs)). last xs \<le> z" by simp
  moreover from y assms(2) have "y = last xs \<or> y \<in> set (butlast xs)"
    by (metis append_butlast_last_id in_set_butlast_appendI insert_iff list.set(2) rotate1.simps(2) set_rotate1 empty_set Un_iff set_append empty_iff)
  ultimately show "last xs \<le> y" by auto
qed

text \<open>
  C7, as stated, fails: on a page whose ids are 5, 3, 7 in that order the next request
  carries the cursor 7, the id of the last item, while the minimum id of the page is 3.
\<close>

theorem cursor_not_minimum_counterexample:
  "map_option (map_sum id ps_log) (get_all_posts 2 shuffled_client offline_services None 0)
     = Some (Inr [Request None, Sleep (1 / 2), Request (Some 7)]) \<and>
   Min (set (map p_id [plain_post 5, plain_post 3, plain_post 7])) = 3"
  by (simp add: get_all_posts_def start_posts_def shuffled_client_def posts_iteration_def
        steady_ok
        request_cursor_def notices_def sleep_def reached_def Let_def plain_post_def
        numeral_2_eq_2)

text \<open>
  C7, amended. After a non-empty page on which the loop goes on, \<^verbatim>\<open>max_id\<close> is the id
  of the last item of the page, and that id is the cursor of the next request (no cursor
  is sent when it is zero). It is the minimum id of the page whenever the page is ordered
  newest first, that is by descending id.
\<close>

theorem next_cursor_is_last_id:
  assumes "account_statuses cl (ps_world st) (request_cursor (ps_max_id st)) = (Page batch, w')"
    and "batch \<noteq> []"
    and "posts_iteration cl sv max_count st = Continue st'"
  shows "ps_max_id st' = Some (p_id (last batch)) \<and>
         request_cursor (ps_max_id st') =
           (if p_id (last batch) = 0 then None else Some (p_id (last batch))) \<and>
         (sorted (rev (map p_id batch)) \<longrightarrow>
            p_id (last batch) = Min (set (map p_id batch)))"
proof -
  from assms have m: "ps_max_id st' = Some (p_id (last batch))"
    by (auto simp: posts_iteration_def Let_def sleep_def
        split: sum.splits if_splits)
  have "sorted (rev (map p_id batch)) \<longrightarrow> p_id (last batch) = Min (set (map p_id batch))"
    using Min_last_of_descending [of "map p_id batch"] assms(2)
    by (simp add: last_map)
  with m show ?thesis by (simp add: request_cursor_def)
qed

theorem next_cursor_is_last_id_witness:
  "posts_iteration flaky_client offline_services None (start_posts 0) = Continue after_first_page \<and>
   request_cursor (ps_max_id after_first_page) = Some 8 \<and>
   Min (set (map p_id [plain_post 9, plain_post 8])) = 8"
proof -
  have a: "account_statuses flaky_client (ps_world (start_posts 0))
             (request_cursor (ps_max_id (start_posts 0)))
           = (Page [plain_post 9, plain_post 8], 1)"
    by (simp add: flaky_client_def start_posts_def)
  have b: "[plain_post 9, plain_post 8] \<noteq> []" by simp
  have c: "posts_iteration flaky_client offline_services None (start_posts 0)
           = Continue after_first_page"
    by (simp add: flaky_client_def posts_iteration_def steady_ok start_posts_def
        request_cursor_def notices_def sleep_def reached_def Let_def plain_post_def
        after_first_page_def)
  have s: "sorted (rev (map p_id [plain_post 9, plain_post 8]))"
    by (simp add: plain_post_def)
  have l: "p_id (last [plain_post 9, plain_post 8]) = 8"
    by (simp add: plain_post_def)
  show ?thesis
    using next_cursor_is_last_id [OF a b c] c s l by (simp add: request_cursor_def)
qed

text \<open>
  The handler of the followers loop, lines 166-174: a 429 response whose
  \<^verbatim>\<open>Retry-After\<close> reads as the integer \<open>k\<close> is followed by a sleep of \<open>k\<close> seconds and
  a further turn of the loop with the parameters and items it had.
\<close>

lemma follow_rate_limit_retry:
  assumes "monitor_rate_limit (http_quota_of hc (fl_world hst)) = Inr hmsg"
    and "http_get hc (fl_world hst) (fl_params hst) = (Response resp, hw')"
    and "status_code resp = 429"
    and "retry_after_header resp = Some v"
    and "py_int hc v = Some k"
    and "0 \<le> k"
  shows "follow_loop (Suc fuel) hc expected hst =
         follow_loop fuel hc expected
           (hst \<lparr> fl_world := hw', fl_response := Some resp,
                  fl_log := fl_log hst @ notices hmsg @
                            [Request (fl_params hst), Sleep (rat_of_int k)] \<rparr>)"
  using assms
  by (simp add: follow_iteration_def on_request_exception_def sleep_def Let_def)

text \<open>
  C8, at a posts source that raises \<^verbatim>\<open>MastodonRatelimitError\<close> on the first request
  and would serve a page of one post on the second: the handler of lines 465-467 reads
  \<^verbatim>\<open>e.reset_in\<close>, which the exception does not have, so \<^verbatim>\<open>get_all_posts\<close> ends
  with AttributeError after the one request, without a sleep and without the page. The
  followers loop at the source of the same shape, a 429 response with
  \<^verbatim>\<open>Retry-After: 30\<close> and then a page of one account, sleeps 30 seconds between two
  requests with the same parameters and returns the account.
\<close>

theorem rate_limit_attribute_error:
  "get_all_posts (Suc fuel) throttled_client offline_services None 0
     = Some (Inl AttributeError) \<and>
   map_option (map_sum id fl_items)
     (get_followers_or_following_direct (Suc (Suc fuel)) throttled_http ''followers'' 0)
     = Some (Inr [sample_account ''1'']) \<and>
   map_option (map_sum id fl_log)
     (get_followers_or_following_direct (Suc (Suc fuel)) throttled_http ''followers'' 0)
     = Some (Inr [Request [(''limit'', ''80'')], Sleep 30, Request [(''limit'', ''80'')]])"
  by (simp add: get_all_posts_def start_posts_def start_follow_def throttled_client_def
        posts_iteration_def steady_ok request_cursor_def notices_def sleep_def Let_def
        get_followers_or_following_direct_def throttled_http_def follow_iteration_def
        on_request_exception_def sample_counters_def sample_account_def sample_py_int_def)

section \<open>Pagination to completeness\<close>









subsection \<open>The next link of the followers source\<close>

















end
